theory Spec2Isabelle
  imports Main "HOL-Library.Word"
begin

unbundle bit_operations_syntax

section \<open>Platform types and constants\<close>

text \<open>
  The wrapper is written against the Windows SDK. Its headers (windows.h, winerror.h,
  guiddef.h, dinput.h) are not part of the repository; the types, macros and constants
  the wrapper uses are written out here with the values those headers give them.
  Pointers into caller memory are addresses (\<open>addr\<close>); a pointer to an object of the
  genuine library is a \<open>handle\<close>, with 0 for \<open>nullptr\<close>.
\<close>

type_synonym BYTE = "8 word"
type_synonym DWORD = "32 word"
type_synonym LONG = "32 word"
type_synonym ULONG = "32 word"
type_synonym HRESULT = "32 word"
type_synonym addr = nat
type_synonym handle = nat
type_synonym HMODULE = nat
type_synonym fnptr = nat

record GUID =
  Data1 :: "32 word"
  Data2 :: "16 word"
  Data3 :: "16 word"
  Data4 :: "8 word list"

definition S_OK :: HRESULT where
  "S_OK = 0"

definition E_FAIL :: HRESULT where
  "E_FAIL = 0x80004005"

definition SUCCEEDED :: "HRESULT \<Rightarrow> bool" where
  \<comment> \<open>winerror.h: \<open>#define SUCCEEDED(hr) (((HRESULT)(hr)) >= 0)\<close>, HRESULT a signed LONG\<close>
  "SUCCEEDED hr \<longleftrightarrow> 0 \<le> sint hr"

definition IID_IUnknown :: GUID where
  "IID_IUnknown = \<lparr>Data1 = 0x00000000, Data2 = 0x0000, Data3 = 0x0000,
     Data4 = [0xC0, 0x00, 0x00, 0x00, 0x00, 0x00, 0x00, 0x46]\<rparr>"

definition IID_IDirectInput8A :: GUID where
  "IID_IDirectInput8A = \<lparr>Data1 = 0xBF798030, Data2 = 0x483A, Data3 = 0x4DA2,
     Data4 = [0xAA, 0x99, 0x5D, 0x64, 0xED, 0x36, 0x97, 0x00]\<rparr>"

definition IID_IDirectInput8W :: GUID where
  "IID_IDirectInput8W = \<lparr>Data1 = 0xBF798031, Data2 = 0x483A, Data3 = 0x4DA2,
     Data4 = [0xAA, 0x99, 0x5D, 0x64, 0xED, 0x36, 0x97, 0x00]\<rparr>"



text \<open>
  dinput.h: \<open>GET_DIDEVICE_TYPE(dwDevType)\<close> is \<open>LOBYTE(dwDevType)\<close> and
  \<open>GET_DIDEVICE_SUBTYPE(dwDevType)\<close> is \<open>HIBYTE(dwDevType)\<close>, the two low bytes of the
  device type word.
\<close>

definition GET_DIDEVICE_TYPE :: "DWORD \<Rightarrow> BYTE" where
  "GET_DIDEVICE_TYPE dwDevType = ucast (dwDevType AND 0xFF)"

definition GET_DIDEVICE_SUBTYPE :: "DWORD \<Rightarrow> BYTE" where
  "GET_DIDEVICE_SUBTYPE dwDevType = ucast (drop_bit 8 dwDevType AND 0xFF)"

definition DI8DEVTYPE_1STPERSON :: BYTE where
  "DI8DEVTYPE_1STPERSON = 0x18"

definition DI8DEVTYPE1STPERSON_SIXDOF :: BYTE where
  "DI8DEVTYPE1STPERSON_SIXDOF = 3"

text \<open>
  \<open>DIDEVICEINSTANCE\<close> (A and W differ in the character type of the two names only).
\<close>

record DIDEVICEINSTANCE =
  dwSize :: DWORD
  guidInstance :: GUID
  guidProduct :: GUID
  dwDevType :: DWORD
  tszInstanceName :: string
  tszProductName :: string
  guidFFDriver :: GUID
  wUsagePage :: "16 word"
  wUsage :: "16 word"


section \<open>Caller memory and the state buffer\<close>

text \<open>
  The caller's buffers are byte-addressed memory. \<open>DIJOYSTATE\<close> is the fixed layout of
  dinput.h: six LONG axes, two LONG sliders, four DWORD point-of-view hats and 32 button
  bytes, 80 bytes in all, with \<open>lRx\<close> at byte offset 12 and \<open>lRy\<close> at byte offset 16.
  A LONG is stored little-endian, as on every Windows target.
\<close>

type_synonym memory = "addr \<Rightarrow> BYTE"

record DIJOYSTATE =
  lX :: LONG
  lY :: LONG
  lZ :: LONG
  lRx :: LONG
  lRy :: LONG
  lRz :: LONG
  rglSlider :: "LONG list"
  rgdwPOV :: "DWORD list"
  rgbButtons :: "BYTE list"

definition sizeof_DIJOYSTATE :: nat where
  "sizeof_DIJOYSTATE = 80"

definition offsetof_lRx :: nat where
  "offsetof_lRx = 12"

definition offsetof_lRy :: nat where
  "offsetof_lRy = 16"

definition store_LONG :: "memory \<Rightarrow> addr \<Rightarrow> LONG \<Rightarrow> memory" where
  "store_LONG m a v =
     m(a := ucast v, a + 1 := ucast (drop_bit 8 v),
       a + 2 := ucast (drop_bit 16 v), a + 3 := ucast (drop_bit 24 v))"

definition load_LONG :: "memory \<Rightarrow> addr \<Rightarrow> LONG" where
  "load_LONG m a =
     ucast (m a) OR push_bit 8 (ucast (m (a + 1))) OR
     push_bit 16 (ucast (m (a + 2))) OR push_bit 24 (ucast (m (a + 3)))"

definition load_DIJOYSTATE :: "memory \<Rightarrow> addr \<Rightarrow> DIJOYSTATE" where
  "load_DIJOYSTATE m p =
     \<lparr>lX = load_LONG m p, lY = load_LONG m (p + 4), lZ = load_LONG m (p + 8),
      lRx = load_LONG m (p + 12), lRy = load_LONG m (p + 16), lRz = load_LONG m (p + 20),
      rglSlider = map (\<lambda>i. load_LONG m (p + 24 + 4 * i)) [0..<2],
      rgdwPOV = map (\<lambda>i. load_LONG m (p + 32 + 4 * i)) [0..<4],
      rgbButtons = map (\<lambda>i. m (p + 48 + i)) [0..<32]\<rparr>"

section \<open>The genuine library and the process state\<close>

text \<open>
  Everything outside the wrapper is opaque: the operating system's loader and the genuine
  dinput8.dll with the objects it creates. Their state is a value of an arbitrary type
  \<open>'x\<close>, and their behaviour is a record of functions over it, one per call the wrapper
  makes. A call with an output pointer returns what it stored there (\<open>None\<close> when it
  stored nothing); a nullable result is an option, \<open>None\<close> for NULL.
  \<open>real_GetDeviceState\<close> fills the caller's buffer, so it also transforms memory.
\<close>

record 'x externals =
  GetSystemDirectoryA :: "'x \<Rightarrow> string"
  LoadLibraryA :: "string \<Rightarrow> 'x \<Rightarrow> HMODULE option \<times> 'x"
  GetProcAddress :: "HMODULE \<Rightarrow> string \<Rightarrow> 'x \<Rightarrow> fnptr option"
  real_DirectInput8Create ::
    "fnptr \<Rightarrow> handle \<Rightarrow> DWORD \<Rightarrow> GUID \<Rightarrow> handle \<Rightarrow> 'x \<Rightarrow> (HRESULT \<times> handle option) \<times> 'x"
  real_QueryInterface :: "handle \<Rightarrow> GUID \<Rightarrow> 'x \<Rightarrow> (HRESULT \<times> handle option) \<times> 'x"
  real_AddRef :: "handle \<Rightarrow> 'x \<Rightarrow> ULONG \<times> 'x"
  real_Release :: "handle \<Rightarrow> 'x \<Rightarrow> ULONG \<times> 'x"
  real_CreateDevice :: "handle \<Rightarrow> GUID \<Rightarrow> handle \<Rightarrow> 'x \<Rightarrow> (HRESULT \<times> handle option) \<times> 'x"
  real_GetDeviceInfo :: "handle \<Rightarrow> DWORD \<Rightarrow> 'x \<Rightarrow> (HRESULT \<times> DIDEVICEINSTANCE) \<times> 'x"
  real_GetDeviceState ::
    "handle \<Rightarrow> DWORD \<Rightarrow> addr \<Rightarrow> memory \<Rightarrow> 'x \<Rightarrow> HRESULT \<times> memory \<times> 'x"

text \<open>
  The four wrapper classes. The A and W classes of a pair have the same members and the
  same method bodies up to the interface identifier, so the encoding is a parameter:
  \<open>WrapperIDirectInputDevice8 A p\<close> is a \<open>WrapperIDirectInputDevice8A\<close> whose
  \<open>m_pRealDevice\<close> is \<open>p\<close>.
\<close>

datatype charset = A | W

definition sizeof_DIDEVICEINSTANCE :: "charset \<Rightarrow> DWORD" where
  \<comment> \<open>the value the wrapper stores in \<open>didi.dwSize\<close>: the names are \<open>MAX_PATH\<close> characters each\<close>
  "sizeof_DIDEVICEINSTANCE cs = (case cs of A \<Rightarrow> 580 | W \<Rightarrow> 1100)"

datatype wrapper =
  WrapperIDirectInputDevice8 charset handle
| WrapperIDirectInput8 charset handle

text \<open>
  An interface pointer as the caller holds it: a pointer to an object of the genuine
  library, or a pointer to a wrapper object on the heap.
\<close>

datatype iface = Genuine handle | Proxy addr

text \<open>
  The process state: caller memory, the outside world, the heap of wrapper objects
  (\<open>new\<close> appends a cell, \<open>delete\<close> empties it), the global
  \<open>g_pfnDirectInput8Create\<close> (\<open>None\<close> for \<open>nullptr\<close>), the environment variable that
  gates logging and the lines appended to the log file (without their time stamps).
\<close>

record 'x world =
  mem :: memory
  ext :: 'x
  heap :: "wrapper option list"
  g_pfnDirectInput8Create :: "fnptr option"
  DINPUT8_LOG_ENABLE :: "string option"
  log_file :: "string list"

definition wrapper_at :: "'x world \<Rightarrow> addr \<Rightarrow> wrapper option" where
  "wrapper_at w a = (if a < length (heap w) then heap w ! a else None)"

definition new_wrapper :: "wrapper \<Rightarrow> 'x world \<Rightarrow> addr \<times> 'x world" where
  "new_wrapper obj w = (length (heap w), w\<lparr>heap := heap w @ [Some obj]\<rparr>)"


section \<open>Logging\<close>

text \<open>
  \<open>Log\<close> reads DINPUT8_LOG_ENABLE into a 16-byte buffer and appends the message to the
  log file when the value is \<open>1\<close> or, ignoring case, \<open>true\<close>. A value that does not
  fit the buffer leaves its contents unspecified; the model logs nothing then.
\<close>

definition tolower_char :: "char \<Rightarrow> char" where
  "tolower_char c =
     (if 65 \<le> (of_char c :: nat) \<and> (of_char c :: nat) \<le> 90
      then char_of (of_char c + 32 :: nat) else c)"

definition log_enabled :: "string option \<Rightarrow> bool" where
  "log_enabled env =
     (case env of
        None \<Rightarrow> False
      | Some envBuffer \<Rightarrow>
          0 < length envBuffer \<and> length envBuffer < 16 \<and>
          (envBuffer = ''1'' \<or> map tolower_char envBuffer = ''true''))"

definition Log :: "string \<Rightarrow> 'x world \<Rightarrow> 'x world" where
  "Log message w =
     (if log_enabled (DINPUT8_LOG_ENABLE w)
      then w\<lparr>log_file := log_file w @ [message]\<rparr> else w)"

section \<open>WrapperIDirectInputDevice8A and WrapperIDirectInputDevice8W\<close>

text \<open>
  dllmain.cpp holds the wrapper twice. The model follows the second text, which has the
  Unicode classes. The first text has the ANSI classes only, and its device class has
  three more members and a destructor that logs.
\<close>

definition charset_suffix :: "charset \<Rightarrow> string" where
  "charset_suffix cs = (case cs of A \<Rightarrow> ''A'' | W \<Rightarrow> ''W'')"


definition new_WrapperIDirectInputDevice8 ::
  "charset \<Rightarrow> handle \<Rightarrow> 'x world \<Rightarrow> addr \<times> 'x world" where
  \<comment> \<open>the \<open>new\<close> expression: the allocation, then the constructor, which logs\<close>
  "new_WrapperIDirectInputDevice8 cs pRealDevice w =
     new_wrapper (WrapperIDirectInputDevice8 cs pRealDevice)
       (Log (''WrapperIDirectInputDevice8'' @ charset_suffix cs @ '' created.'') w)"




definition WrapperIDirectInputDevice8_GetDeviceState ::
  "'x externals \<Rightarrow> handle \<Rightarrow> DWORD \<Rightarrow> addr \<Rightarrow> 'x world \<Rightarrow> HRESULT \<times> 'x world" where
  "WrapperIDirectInputDevice8_GetDeviceState E m_pRealDevice cbData lpvData w =
     (case real_GetDeviceState E m_pRealDevice cbData lpvData (mem w) (ext w) of
        (hr, m', x') \<Rightarrow>
          let w1 = w\<lparr>mem := m', ext := x'\<rparr> in
          if SUCCEEDED hr \<and> unat cbData = sizeof_DIJOYSTATE then
            (hr, w1\<lparr>mem := store_LONG (store_LONG (mem w1) (lpvData + offsetof_lRx) 0)
                              (lpvData + offsetof_lRy) 0\<rparr>)
          else (hr, w1))"

text \<open>
  A call through an interface pointer dispatches on the object it points to. A pointer
  to no live wrapper object of the right class is a dangling or ill-typed pointer: the
  call has no defined behaviour, which is the result \<open>None\<close>.
\<close>

definition GetDeviceState ::
  "'x externals \<Rightarrow> addr \<Rightarrow> DWORD \<Rightarrow> addr \<Rightarrow> 'x world \<Rightarrow> (HRESULT \<times> 'x world) option" where
  "GetDeviceState E this cbData lpvData w =
     (case wrapper_at w this of
        Some (WrapperIDirectInputDevice8 cs m_pRealDevice) \<Rightarrow>
          Some (WrapperIDirectInputDevice8_GetDeviceState E m_pRealDevice cbData lpvData w)
      | _ \<Rightarrow> None)"

section \<open>WrapperIDirectInput8A and WrapperIDirectInput8W\<close>

definition IID_IDirectInput8 :: "charset \<Rightarrow> GUID" where
  "IID_IDirectInput8 cs = (case cs of A \<Rightarrow> IID_IDirectInput8A | W \<Rightarrow> IID_IDirectInput8W)"




definition hex8 :: "DWORD \<Rightarrow> string" where
  \<comment> \<open>\<open>std::hex << std::setw(8) << std::setfill('0')\<close> of a 32-bit value\<close>
  "hex8 d =
     map (\<lambda>i. ''0123456789abcdef'' ! unat (drop_bit (4 * i) d AND 0xF)) [7, 6, 5, 4, 3, 2, 1, 0]"

text \<open>
  \<open>CreateDevice\<close> starts with \<open>pRealDevice = nullptr\<close> and, when the real creation
  reports success, calls \<open>pRealDevice->GetDeviceInfo\<close>. If the real creation stored no
  pointer (or stored a null one), that call goes through \<open>nullptr\<close> and has no defined
  behaviour: the result is \<open>None\<close>.
\<close>

definition WrapperIDirectInput8_CreateDevice ::
  "'x externals \<Rightarrow> charset \<Rightarrow> handle \<Rightarrow> GUID \<Rightarrow> handle \<Rightarrow> 'x world
     \<Rightarrow> ((HRESULT \<times> iface option) \<times> 'x world) option" where
  "WrapperIDirectInput8_CreateDevice E cs m_pRealDInput rguid pUnkOuter w =
     (let w1 = Log ''CreateDevice() called.'' w in
      case real_CreateDevice E m_pRealDInput rguid pUnkOuter (ext w1) of
        ((hr, stored), x1) \<Rightarrow>
          let pRealDevice = (case stored of None \<Rightarrow> 0 | Some h \<Rightarrow> h);
              w2 = w1\<lparr>ext := x1\<rparr>
          in
          if SUCCEEDED hr then
            if pRealDevice = 0 then None
            else
            (case real_GetDeviceInfo E pRealDevice (sizeof_DIDEVICEINSTANCE cs) (ext w2) of
               ((hr_info, didi), x2) \<Rightarrow>
                 let w3 = w2\<lparr>ext := x2\<rparr> in
                 if SUCCEEDED hr_info then
                   let w4 = Log (''Device Info: '' @ tszProductName didi) w3;
                       w5 = Log (''Device Type: 0x'' @ hex8 (dwDevType didi)) w4
                   in
                   if GET_DIDEVICE_TYPE (dwDevType didi) = DI8DEVTYPE_1STPERSON \<and>
                      GET_DIDEVICE_SUBTYPE (dwDevType didi) = DI8DEVTYPE1STPERSON_SIXDOF
                   then
                     (case new_WrapperIDirectInputDevice8 cs pRealDevice
                             (Log ''Device is a six degrees of freedom, first-person controller. Wrapping it.'' w5) of
                        (p, w6) \<Rightarrow> Some ((hr, Some (Proxy p)), w6))
                   else
                     Some ((hr, Some (Genuine pRealDevice)),
                      Log ''Device is not a six degrees of freedom, first-person controller. Passing it through.'' w5)
                 else
                   Some ((hr, Some (Genuine pRealDevice)),
                    Log ''Could not get device info. Passing it through.'' w3))
          else Some ((hr, None), w2))"

section \<open>Calls through an interface pointer\<close>




definition CreateDevice ::
  "'x externals \<Rightarrow> addr \<Rightarrow> GUID \<Rightarrow> handle \<Rightarrow> 'x world
     \<Rightarrow> ((HRESULT \<times> iface option) \<times> 'x world) option" where
  "CreateDevice E this rguid pUnkOuter w =
     (case wrapper_at w this of
        Some (WrapperIDirectInput8 cs m_pRealDInput) \<Rightarrow>
          WrapperIDirectInput8_CreateDevice E cs m_pRealDInput rguid pUnkOuter w
      | _ \<Rightarrow> None)"



section \<open>The exported DirectInput8Create\<close>

definition DirectInput8Create_wrap ::
  "'x externals \<Rightarrow> fnptr \<Rightarrow> charset \<Rightarrow> handle \<Rightarrow> DWORD \<Rightarrow> handle \<Rightarrow> 'x world
     \<Rightarrow> (HRESULT \<times> iface option) \<times> 'x world" where
  \<comment> \<open>the two recognised branches: create the real object into a local, wrap it on success\<close>
  "DirectInput8Create_wrap E pfn cs hinst dwVersion punkOuter w =
     (case real_DirectInput8Create E pfn hinst dwVersion (IID_IDirectInput8 cs) punkOuter (ext w) of
        ((hr, stored), x') \<Rightarrow>
          let pRealDInput = (case stored of None \<Rightarrow> 0 | Some h \<Rightarrow> h);
              w1 = w\<lparr>ext := x'\<rparr>
          in
          if SUCCEEDED hr then
            (case new_wrapper (WrapperIDirectInput8 cs pRealDInput) w1 of
               (p, w2) \<Rightarrow> ((hr, Some (Proxy p)), w2))
          else ((hr, None), w1))"

definition DirectInput8Create_dispatch ::
  "'x externals \<Rightarrow> fnptr \<Rightarrow> handle \<Rightarrow> DWORD \<Rightarrow> GUID \<Rightarrow> handle \<Rightarrow> 'x world
     \<Rightarrow> (HRESULT \<times> iface option) \<times> 'x world" where
  \<comment> \<open>the function from its first \<open>Log\<close> on, with \<open>g_pfnDirectInput8Create\<close> known to be \<open>pfn\<close>\<close>
  "DirectInput8Create_dispatch E pfn hinst dwVersion riid punkOuter w =
     (let w1 = Log ''DirectInput8Create() export called by the game.'' w in
      if riid = IID_IDirectInput8A then
        DirectInput8Create_wrap E pfn A hinst dwVersion punkOuter
          (Log ''Game requested ANSI interface (IDirectInput8A).'' w1)
      else if riid = IID_IDirectInput8W then
        DirectInput8Create_wrap E pfn W hinst dwVersion punkOuter
          (Log ''Game requested Unicode interface (IDirectInput8W).'' w1)
      else
        (let w2 = Log ''Game requested an unknown interface. Passing call to real DLL.'' w1 in
         case real_DirectInput8Create E pfn hinst dwVersion riid punkOuter (ext w2) of
           ((hr, ppvOut), x') \<Rightarrow> ((hr, map_option Genuine ppvOut), w2\<lparr>ext := x'\<rparr>)))"

definition dinput8_dll_path :: "'x externals \<Rightarrow> 'x \<Rightarrow> string" where
  \<comment> \<open>\<open>GetSystemDirectoryA\<close> followed by \<open>strcat_s\<close> of one backslash and the file name\<close>
  "dinput8_dll_path E x = GetSystemDirectoryA E x @ [CHR 0x5C] @ ''dinput8.dll''"

definition resolve_DirectInput8Create :: "'x externals \<Rightarrow> 'x world \<Rightarrow> fnptr option \<times> 'x world" where
  \<comment> \<open>the block \<open>if (!g_pfnDirectInput8Create) { ... }\<close>: the pointer to call, or \<open>None\<close>
      where the block returns \<open>E_FAIL\<close>, together with the state it leaves\<close>
  "resolve_DirectInput8Create E w =
     (case g_pfnDirectInput8Create w of
        Some pfn \<Rightarrow> (Some pfn, w)
      | None \<Rightarrow>
          (case LoadLibraryA E (dinput8_dll_path E (ext w)) (ext w) of
             (None, x1) \<Rightarrow> (None, w\<lparr>ext := x1\<rparr>)
           | (Some hMod, x1) \<Rightarrow>
               (GetProcAddress E hMod ''DirectInput8Create'' x1,
                w\<lparr>ext := x1,
                  g_pfnDirectInput8Create := GetProcAddress E hMod ''DirectInput8Create'' x1\<rparr>)))"

definition DirectInput8Create ::
  "'x externals \<Rightarrow> handle \<Rightarrow> DWORD \<Rightarrow> GUID \<Rightarrow> handle \<Rightarrow> 'x world
     \<Rightarrow> (HRESULT \<times> iface option) \<times> 'x world" where
  "DirectInput8Create E hinst dwVersion riid punkOuter w =
     (case resolve_DirectInput8Create E w of
        (None, w1) \<Rightarrow> ((E_FAIL, None), w1)
      | (Some pfn, w1) \<Rightarrow> DirectInput8Create_dispatch E pfn hinst dwVersion riid punkOuter w1)"

text \<open>
  Not modelled: the methods of the four classes that only forward to the real object
  (none of them reads or writes wrapper state), the time stamp of a log line, failure of
  \<open>new\<close>, and a system directory path too long for the \<open>MAX_PATH\<close> buffer.
\<close>

section \<open>Histories of calls\<close>

text \<open>
  What a caller can do with one proxy pointer, as far as reference counting goes: call
  \<open>AddRef\<close>, \<open>Release\<close> or \<open>QueryInterface\<close> through it, or do anything else to the
  outside world without the proxy (\<open>Outside\<close>; a call on the real object itself, for
  one). \<open>calls\<close> runs a history and returns what each step returned. A history is
  undefined (\<open>None\<close>) as soon as a call goes through a pointer to a destroyed proxy.
  \<open>zero_releases\<close> counts the \<open>Release\<close> calls of a history that returned 0, which are
  the calls that ran \<open>delete this\<close>.
\<close>

datatype 'x call =
  CallAddRef
| CallRelease
| CallQueryInterface GUID
| Outside "'x \<Rightarrow> 'x"






section \<open>A test double of the genuine library\<close>

text \<open>
  A small reference-counting stand-in for the loader and the genuine library, used to run
  the wrapper on concrete inputs. It owns one object with the reference count \<open>refs\<close>;
  \<open>AddRef\<close> and \<open>Release\<close> return the count they leave. Creation calls return
  \<open>create_hr\<close>, the capability query returns \<open>info_hr\<close> and a descriptor of type
  \<open>devtype\<close>, and the state poll returns \<open>state_hr\<close>, filling the buffer with the bytes
  1, 2, 3, ... when it succeeds.
\<close>

record fake =
  refs :: ULONG
  dll_loads :: bool
  export_found :: bool
  create_hr :: HRESULT
  info_hr :: HRESULT
  devtype :: DWORD
  state_hr :: HRESULT

definition null_GUID :: GUID where
  "null_GUID = \<lparr>Data1 = 0, Data2 = 0, Data3 = 0, Data4 = [0, 0, 0, 0, 0, 0, 0, 0]\<rparr>"

definition fake_didi :: "DWORD \<Rightarrow> DWORD \<Rightarrow> DIDEVICEINSTANCE" where
  "fake_didi sz ty =
     \<lparr>dwSize = sz, guidInstance = null_GUID, guidProduct = null_GUID, dwDevType = ty,
      tszInstanceName = ''Pad'', tszProductName = ''Wireless Controller'',
      guidFFDriver = null_GUID, wUsagePage = 1, wUsage = 5\<rparr>"

definition fake_buffer :: "addr \<Rightarrow> nat \<Rightarrow> memory" where
  "fake_buffer lpvData n =
     (\<lambda>a. if lpvData \<le> a \<and> a < lpvData + n then of_nat (a - lpvData + 1) else 0)"

definition fake_externals :: "fake externals" where
  "fake_externals =
     \<lparr>GetSystemDirectoryA = (\<lambda>x. ''C:''),
      LoadLibraryA = (\<lambda>path x. (if dll_loads x then Some 1 else None, x)),
      GetProcAddress = (\<lambda>hMod name x. if export_found x then Some 7 else None),
      real_DirectInput8Create =
        (\<lambda>pfn hinst dwVersion riid punkOuter x.
           if SUCCEEDED (create_hr x) then ((create_hr x, Some 10), x\<lparr>refs := 1\<rparr>)
           else ((create_hr x, None), x)),
      real_QueryInterface = (\<lambda>h riid x. ((S_OK, Some h), x\<lparr>refs := refs x + 1\<rparr>)),
      real_AddRef = (\<lambda>h x. (refs x + 1, x\<lparr>refs := refs x + 1\<rparr>)),
      real_Release = (\<lambda>h x. (refs x - 1, x\<lparr>refs := refs x - 1\<rparr>)),
      real_CreateDevice =
        (\<lambda>h rguid pUnkOuter x.
           if SUCCEEDED (create_hr x) then ((create_hr x, Some 20), x)
           else ((create_hr x, None), x)),
      real_GetDeviceInfo = (\<lambda>h sz x. ((info_hr x, fake_didi sz (devtype x)), x)),
      real_GetDeviceState =
        (\<lambda>h cbData lpvData m x.
           if SUCCEEDED (state_hr x)
           then (state_hr x,
                 (\<lambda>a. if lpvData \<le> a \<and> a < lpvData + unat cbData
                      then of_nat (a - lpvData + 1) else m a), x)
           else (state_hr x, m, x))\<rparr>"

definition fake_state :: fake where
  \<comment> \<open>device type 0x18 (first person), subtype 3 (six degrees of freedom)\<close>
  "fake_state =
     \<lparr>refs = 1, dll_loads = True, export_found = True, create_hr = 0, info_hr = 0,
      devtype = 0x00010318, state_hr = 0\<rparr>"

definition fake_world :: "fake \<Rightarrow> wrapper option list \<Rightarrow> fake world" where
  "fake_world x h =
     \<lparr>mem = (\<lambda>a. 0), ext = x, heap = h, g_pfnDirectInput8Create = None,
      DINPUT8_LOG_ENABLE = Some ''1'', log_file = []\<rparr>"

definition fake_device_world :: "fake \<Rightarrow> fake world" where
  "fake_device_world x = fake_world x [Some (WrapperIDirectInputDevice8 A 20)]"

definition fake_factory_world :: "fake \<Rightarrow> fake world" where
  "fake_factory_world x = fake_world x [Some (WrapperIDirectInput8 A 10)]"

section \<open>Frame lemmas\<close>

lemma store_LONG_zero:
  "store_LONG m a 0 = (\<lambda>b. if a \<le> b \<and> b < a + 4 then 0 else m b)"
  by (auto simp: store_LONG_def fun_eq_iff)

lemma zero_rotation_bytes:
  "store_LONG (store_LONG m (p + offsetof_lRx) 0) (p + offsetof_lRy) 0 =
     (\<lambda>a. if p + 12 \<le> a \<and> a < p + 20 then 0 else m a)"
  by (auto simp: store_LONG_zero offsetof_lRx_def offsetof_lRy_def fun_eq_iff)

lemma load_zeroed_DIJOYSTATE:
  "load_DIJOYSTATE (\<lambda>a. if p + 12 \<le> a \<and> a < p + 20 then 0 else m a) p =
     (load_DIJOYSTATE m p)\<lparr>lRx := 0, lRy := 0\<rparr>"
  by (simp add: load_DIJOYSTATE_def load_LONG_def)

lemma ext_Log: "ext (Log msg w) = ext w"
  by (simp add: Log_def)

lemma mem_Log: "mem (Log msg w) = mem w"
  by (simp add: Log_def)

lemma heap_Log: "heap (Log msg w) = heap w"
  by (simp add: Log_def)

lemma g_pfn_Log: "g_pfnDirectInput8Create (Log msg w) = g_pfnDirectInput8Create w"
  by (simp add: Log_def)

lemmas Log_frame = ext_Log mem_Log heap_Log g_pfn_Log



lemma wrapper_at_cleared:
  "wrapper_at (w\<lparr>ext := x, heap := (heap w)[this := None]\<rparr>) this = None"
  by (simp add: wrapper_at_def)

lemma resolve_frame:
  assumes "resolve_DirectInput8Create E w = (r, w1)"
  shows "heap w1 = heap w" and "mem w1 = mem w" and "log_file w1 = log_file w"
  using assms
  by (auto simp: resolve_DirectInput8Create_def split: option.splits prod.splits)

lemma dispatch_keeps_pointer:
  "g_pfnDirectInput8Create
     (snd (DirectInput8Create_dispatch E pfn hinst dwVersion riid punkOuter w)) =
   g_pfnDirectInput8Create w"
  by (simp add: DirectInput8Create_dispatch_def DirectInput8Create_wrap_def Let_def Log_frame
      new_wrapper_def split: prod.splits)

lemmas fake_defs =
  fake_externals_def fake_world_def fake_state_def fake_device_world_def
  fake_factory_world_def fake_buffer_def fake_didi_def wrapper_at_def

section \<open>Reference counting through a proxy\<close>










text \<open>
  A creation that reports success without storing a device makes \<open>CreateDevice\<close>
  call through \<open>nullptr\<close>.
\<close>

lemma CreateDevice_null_undefined:
  assumes "wrapper_at w this = Some (WrapperIDirectInput8 cs m_pRealDInput)"
      and "real_CreateDevice E m_pRealDInput rguid pUnkOuter (ext w) = ((hr, None), x1)"
      and "SUCCEEDED hr"
  shows "CreateDevice E this rguid pUnkOuter w = None"
  using assms
  by (simp add: CreateDevice_def WrapperIDirectInput8_CreateDevice_def Let_def Log_frame)

section \<open>The claims\<close>

text \<open>
  Claim C1. A call of \<open>GetDeviceState\<close> through a device proxy (of either encoding) with
  \<open>cbData = sizeof(DIJOYSTATE)\<close>, whose underlying call succeeds, returns the real
  result code and leaves the caller's memory as the real device wrote it except for the
  eight bytes of \<open>lRx\<close> and \<open>lRy\<close>, which are zero: read as a \<open>DIJOYSTATE\<close>, the buffer
  is the one the real device wrote with \<open>lRx\<close> and \<open>lRy\<close> set to 0 and every other
  field unchanged.
\<close>

theorem GetDeviceState_zeroes_rotation:
  assumes live: "wrapper_at w this = Some (WrapperIDirectInputDevice8 cs m_pRealDevice)"
      and real: "real_GetDeviceState E m_pRealDevice cbData lpvData (mem w) (ext w) = (hr, m', x')"
      and ok: "SUCCEEDED hr"
      and size: "unat cbData = sizeof_DIJOYSTATE"
  shows "GetDeviceState E this cbData lpvData w =
           Some (hr, w\<lparr>mem := (\<lambda>a. if lpvData + 12 \<le> a \<and> a < lpvData + 20 then 0 else m' a),
                       ext := x'\<rparr>)
         \<and> load_DIJOYSTATE
             (\<lambda>a. if lpvData + 12 \<le> a \<and> a < lpvData + 20 then 0 else m' a) lpvData =
             (load_DIJOYSTATE m' lpvData)\<lparr>lRx := 0, lRy := 0\<rparr>"
  using assms
  by (simp add: GetDeviceState_def WrapperIDirectInputDevice8_GetDeviceState_def
      zero_rotation_bytes load_zeroed_DIJOYSTATE cong: if_cong)

theorem GetDeviceState_zeroes_rotation_witness:
  "wrapper_at (fake_device_world fake_state) 0 = Some (WrapperIDirectInputDevice8 A 20)
   \<and> real_GetDeviceState fake_externals 20 80 100
        (mem (fake_device_world fake_state)) (ext (fake_device_world fake_state)) =
        (S_OK, fake_buffer 100 80, fake_state)
   \<and> SUCCEEDED S_OK
   \<and> unat (80 :: DWORD) = sizeof_DIJOYSTATE
   \<and> GetDeviceState fake_externals 0 80 100 (fake_device_world fake_state) =
        Some (S_OK, (fake_device_world fake_state)
           \<lparr>mem := (\<lambda>a. if 100 + 12 \<le> a \<and> a < 100 + 20 then 0 else fake_buffer 100 80 a),
            ext := fake_state\<rparr>)
   \<and> load_DIJOYSTATE
        (\<lambda>a. if 100 + 12 \<le> a \<and> a < 100 + 20 then 0 else fake_buffer 100 80 a) 100 =
        (load_DIJOYSTATE (fake_buffer 100 80) 100)\<lparr>lRx := 0, lRy := 0\<rparr>
   \<and> lRx (load_DIJOYSTATE (fake_buffer 100 80) 100) = 0x100F0E0D
   \<and> lRy (load_DIJOYSTATE (fake_buffer 100 80) 100) = 0x14131211"
proof -
  have h1: "wrapper_at (fake_device_world fake_state) 0 = Some (WrapperIDirectInputDevice8 A 20)"
    by (simp add: fake_defs)
  have h2: "real_GetDeviceState fake_externals 20 80 100
        (mem (fake_device_world fake_state)) (ext (fake_device_world fake_state)) =
        (S_OK, fake_buffer 100 80, fake_state)"
    by (simp add: fake_defs SUCCEEDED_def S_OK_def)
  have h3: "SUCCEEDED S_OK"
    by (simp add: SUCCEEDED_def S_OK_def)
  have h4: "unat (80 :: DWORD) = sizeof_DIJOYSTATE"
    by (simp add: sizeof_DIJOYSTATE_def)
  have before: "lRx (load_DIJOYSTATE (fake_buffer 100 80) 100) = 0x100F0E0D"
    "lRy (load_DIJOYSTATE (fake_buffer 100 80) 100) = 0x14131211"
    by (simp_all add: load_DIJOYSTATE_def load_LONG_def fake_buffer_def)
  from GetDeviceState_zeroes_rotation [OF h1 h2 h3 h4] h1 h2 h3 h4 before
  show ?thesis by blast
qed






text \<open>
  Claim C4. A call of \<open>GetDeviceState\<close> through a device proxy with a \<open>cbData\<close> other
  than \<open>sizeof(DIJOYSTATE)\<close> returns the real result code unchanged and leaves memory,
  and everything else, exactly as the real call left it, whether or not the real call
  succeeded.
\<close>

theorem GetDeviceState_other_size_untouched:
  assumes live: "wrapper_at w this = Some (WrapperIDirectInputDevice8 cs m_pRealDevice)"
      and real: "real_GetDeviceState E m_pRealDevice cbData lpvData (mem w) (ext w) = (hr, m', x')"
      and size: "unat cbData \<noteq> sizeof_DIJOYSTATE"
  shows "GetDeviceState E this cbData lpvData w = Some (hr, w\<lparr>mem := m', ext := x'\<rparr>)"
  using assms
  by (simp add: GetDeviceState_def WrapperIDirectInputDevice8_GetDeviceState_def)

theorem GetDeviceState_other_size_untouched_witness:
  "wrapper_at (fake_device_world fake_state) 0 = Some (WrapperIDirectInputDevice8 A 20)
   \<and> real_GetDeviceState fake_externals 20 272 100
        (mem (fake_device_world fake_state)) (ext (fake_device_world fake_state)) =
        (S_OK, fake_buffer 100 272, fake_state)
   \<and> SUCCEEDED S_OK
   \<and> unat (272 :: DWORD) \<noteq> sizeof_DIJOYSTATE
   \<and> GetDeviceState fake_externals 0 272 100 (fake_device_world fake_state) =
        Some (S_OK, (fake_device_world fake_state)\<lparr>mem := fake_buffer 100 272, ext := fake_state\<rparr>)
   \<and> lRx (load_DIJOYSTATE (fake_buffer 100 272) 100) = 0x100F0E0D
   \<and> lRy (load_DIJOYSTATE (fake_buffer 100 272) 100) = 0x14131211"
proof -
  have h1: "wrapper_at (fake_device_world fake_state) 0 = Some (WrapperIDirectInputDevice8 A 20)"
    by (simp add: fake_defs)
  have h2: "real_GetDeviceState fake_externals 20 272 100
        (mem (fake_device_world fake_state)) (ext (fake_device_world fake_state)) =
        (S_OK, fake_buffer 100 272, fake_state)"
    by (simp add: fake_defs SUCCEEDED_def S_OK_def)
  have ok: "SUCCEEDED S_OK"
    by (simp add: SUCCEEDED_def S_OK_def)
  have h3: "unat (272 :: DWORD) \<noteq> sizeof_DIJOYSTATE"
    by (simp add: sizeof_DIJOYSTATE_def)
  have kept: "lRx (load_DIJOYSTATE (fake_buffer 100 272) 100) = 0x100F0E0D"
    "lRy (load_DIJOYSTATE (fake_buffer 100 272) 100) = 0x14131211"
    by (simp_all add: load_DIJOYSTATE_def load_LONG_def fake_buffer_def)
  from GetDeviceState_other_size_untouched [OF h1 h2 h3] h1 h2 ok h3 kept
  show ?thesis by blast
qed



text \<open>
  Claim C6, as amended. When \<open>DirectInput8Create\<close> is called with an interface
  identifier other than \<open>IID_IDirectInput8A\<close> and \<open>IID_IDirectInput8W\<close>, and the
  genuine entry point is available (cached, or loaded and resolved by this call), the
  genuine function is called with the
  caller's own arguments; its result code is returned, the caller's output pointer holds
  exactly what the genuine function stored there, and no wrapper object is allocated.
\<close>

theorem DirectInput8Create_unknown_iid_forwarded:
  assumes notA: "riid \<noteq> IID_IDirectInput8A"
      and notW: "riid \<noteq> IID_IDirectInput8W"
      and resolved: "resolve_DirectInput8Create E w = (Some pfn, w1)"
      and real: "real_DirectInput8Create E pfn hinst dwVersion riid punkOuter (ext w1) =
                   ((hr, ppvOut), x')"
  shows "\<exists>w'. DirectInput8Create E hinst dwVersion riid punkOuter w =
             ((hr, map_option Genuine ppvOut), w')
           \<and> ext w' = x' \<and> heap w' = heap w \<and> mem w' = mem w"
  using assms resolve_frame [OF resolved]
  by (simp add: DirectInput8Create_def DirectInput8Create_dispatch_def Let_def Log_frame)

theorem DirectInput8Create_unknown_iid_forwarded_witness:
  "IID_IUnknown \<noteq> IID_IDirectInput8A
   \<and> IID_IUnknown \<noteq> IID_IDirectInput8W
   \<and> resolve_DirectInput8Create fake_externals (fake_world fake_state []) =
        (Some 7, (fake_world fake_state [])\<lparr>g_pfnDirectInput8Create := Some 7\<rparr>)
   \<and> real_DirectInput8Create fake_externals 7 0 0x0800 IID_IUnknown 0
        (ext ((fake_world fake_state [])\<lparr>g_pfnDirectInput8Create := Some 7\<rparr>)) =
        ((S_OK, Some 10), fake_state)
   \<and> (\<exists>w'. DirectInput8Create fake_externals 0 0x0800 IID_IUnknown 0 (fake_world fake_state []) =
              ((S_OK, Some (Genuine 10)), w')
            \<and> ext w' = fake_state \<and> heap w' = [])"
proof -
  let ?w = "fake_world fake_state []"
  have a: "IID_IUnknown \<noteq> IID_IDirectInput8A"
    by (simp add: IID_IUnknown_def IID_IDirectInput8A_def)
  have b: "IID_IUnknown \<noteq> IID_IDirectInput8W"
    by (simp add: IID_IUnknown_def IID_IDirectInput8W_def)
  have r: "resolve_DirectInput8Create fake_externals ?w =
      (Some 7, ?w\<lparr>g_pfnDirectInput8Create := Some 7\<rparr>)"
    by (simp add: resolve_DirectInput8Create_def fake_defs)
  have c: "real_DirectInput8Create fake_externals 7 0 0x0800 IID_IUnknown 0
        (ext (?w\<lparr>g_pfnDirectInput8Create := Some 7\<rparr>)) = ((S_OK, Some 10), fake_state)"
    by (simp add: fake_defs SUCCEEDED_def S_OK_def)
  have res: "\<exists>w'. DirectInput8Create fake_externals 0 0x0800 IID_IUnknown 0 ?w =
              ((S_OK, Some (Genuine 10)), w')
            \<and> ext w' = fake_state \<and> heap w' = []"
    using DirectInput8Create_unknown_iid_forwarded [OF a b r c]
    by (auto simp: fake_world_def)
  from a b r c res show ?thesis by blast
qed

text \<open>
  Claim C6 as stated speaks of every call. The entry point first has to find the genuine
  function, and returns \<open>E_FAIL\<close> before the dispatch when it cannot. On the test
  double with the library missing, a call with \<open>IID_IUnknown\<close> returns \<open>E_FAIL\<close>,
  stores nothing for the caller and leaves the outside world as it was: nothing was
  forwarded, although the genuine function would have succeeded and stored a pointer.
\<close>

theorem DirectInput8Create_library_missing_counterexample:
  "IID_IUnknown \<noteq> IID_IDirectInput8A
   \<and> IID_IUnknown \<noteq> IID_IDirectInput8W
   \<and> DirectInput8Create fake_externals 0 0x0800 IID_IUnknown 0
        (fake_world (fake_state\<lparr>dll_loads := False\<rparr>) []) =
        ((E_FAIL, None), fake_world (fake_state\<lparr>dll_loads := False\<rparr>) [])
   \<and> real_DirectInput8Create fake_externals 7 0 0x0800 IID_IUnknown 0
        (fake_state\<lparr>dll_loads := False\<rparr>) =
        ((S_OK, Some 10), fake_state\<lparr>dll_loads := False\<rparr>)
   \<and> E_FAIL \<noteq> S_OK"
proof -
  let ?off = "fake_state\<lparr>dll_loads := False\<rparr>"
  have a: "IID_IUnknown \<noteq> IID_IDirectInput8A"
    by (simp add: IID_IUnknown_def IID_IDirectInput8A_def)
  have b: "IID_IUnknown \<noteq> IID_IDirectInput8W"
    by (simp add: IID_IUnknown_def IID_IDirectInput8W_def)
  have missing: "resolve_DirectInput8Create fake_externals (fake_world ?off []) =
      (None, fake_world ?off [])"
    by (simp add: resolve_DirectInput8Create_def fake_defs)
  have run: "DirectInput8Create fake_externals 0 0x0800 IID_IUnknown 0 (fake_world ?off []) =
      ((E_FAIL, None), fake_world ?off [])"
    by (simp add: DirectInput8Create_def missing)
  have genuine: "real_DirectInput8Create fake_externals 7 0 0x0800 IID_IUnknown 0 ?off =
      ((S_OK, Some 10), ?off)"
    by (simp add: fake_defs SUCCEEDED_def S_OK_def)
  have differ: "E_FAIL \<noteq> S_OK"
    by (simp add: E_FAIL_def S_OK_def)
  from a b run genuine differ show ?thesis by blast
qed

text \<open>
  Claim C7. When the real device's \<open>GetDeviceState\<close> fails, the call through the device
  proxy returns that failure code and leaves memory, and everything else, exactly as the
  real call left it, whatever \<open>cbData\<close> is: the wrapper stores nothing.
\<close>

theorem GetDeviceState_failure_untouched:
  assumes live: "wrapper_at w this = Some (WrapperIDirectInputDevice8 cs m_pRealDevice)"
      and real: "real_GetDeviceState E m_pRealDevice cbData lpvData (mem w) (ext w) = (hr, m', x')"
      and failed: "\<not> SUCCEEDED hr"
  shows "GetDeviceState E this cbData lpvData w = Some (hr, w\<lparr>mem := m', ext := x'\<rparr>)"
  using assms
  by (simp add: GetDeviceState_def WrapperIDirectInputDevice8_GetDeviceState_def)

theorem GetDeviceState_failure_untouched_witness:
  "wrapper_at (fake_device_world (fake_state\<lparr>state_hr := 0x8007001E\<rparr>)) 0 =
     Some (WrapperIDirectInputDevice8 A 20)
   \<and> real_GetDeviceState fake_externals 20 80 100
        (mem (fake_device_world (fake_state\<lparr>state_hr := 0x8007001E\<rparr>)))
        (ext (fake_device_world (fake_state\<lparr>state_hr := 0x8007001E\<rparr>))) =
        (0x8007001E, (\<lambda>a. 0), fake_state\<lparr>state_hr := 0x8007001E\<rparr>)
   \<and> \<not> SUCCEEDED 0x8007001E
   \<and> GetDeviceState fake_externals 0 80 100
        (fake_device_world (fake_state\<lparr>state_hr := 0x8007001E\<rparr>)) =
        Some (0x8007001E, fake_device_world (fake_state\<lparr>state_hr := 0x8007001E\<rparr>))"
proof -
  let ?x = "fake_state\<lparr>state_hr := 0x8007001E\<rparr>"
  have h1: "wrapper_at (fake_device_world ?x) 0 = Some (WrapperIDirectInputDevice8 A 20)"
    by (simp add: fake_defs)
  have bad: "\<not> SUCCEEDED 0x8007001E"
    by (simp add: SUCCEEDED_def)
  have h2: "real_GetDeviceState fake_externals 20 80 100
        (mem (fake_device_world ?x)) (ext (fake_device_world ?x)) = (0x8007001E, (\<lambda>a. 0), ?x)"
    by (simp add: fake_defs SUCCEEDED_def)
  have same: "(fake_device_world ?x)\<lparr>mem := (\<lambda>a. 0), ext := ?x\<rparr> = fake_device_world ?x"
    by (simp add: fake_defs)
  from GetDeviceState_failure_untouched [OF h1 h2 bad]
  have "GetDeviceState fake_externals 0 80 100 (fake_device_world ?x) =
      Some (0x8007001E, fake_device_world ?x)"
    by (simp add: same)
  with h1 h2 bad show ?thesis by blast
qed

text \<open>
  Claim C8. With \<open>g_pfnDirectInput8Create\<close> unset, \<open>DirectInput8Create\<close> loads the
  genuine library. If the library does not load, or loads without the export, the call
  returns \<open>E_FAIL\<close>, stores nothing for the caller and changes nothing but what the
  loader itself did; the global is still unset afterwards, so the next call goes through
  the loader again. If both steps succeed, the resolved pointer is stored in the global
  and the call goes on with it. Every call that finds the global set uses that pointer
  without consulting the loader and leaves it set.
\<close>

theorem DirectInput8Create_load_failure_not_cached:
  assumes unset: "g_pfnDirectInput8Create w = None"
      and load: "LoadLibraryA (E :: 'x externals) (dinput8_dll_path E (ext w)) (ext w) = (hMod, x1)"
  shows "(hMod = None \<or> (\<exists>h. hMod = Some h \<and> GetProcAddress E h ''DirectInput8Create'' x1 = None)
            \<longrightarrow> DirectInput8Create E hinst dwVersion riid punkOuter w =
                  ((E_FAIL, None), w\<lparr>ext := x1\<rparr>)
              \<and> g_pfnDirectInput8Create
                  (snd (DirectInput8Create E hinst dwVersion riid punkOuter w)) = None)
       \<and> (\<forall>h pfn. hMod = Some h \<and> GetProcAddress E h ''DirectInput8Create'' x1 = Some pfn
            \<longrightarrow> DirectInput8Create E hinst dwVersion riid punkOuter w =
                  DirectInput8Create_dispatch E pfn hinst dwVersion riid punkOuter
                    (w\<lparr>ext := x1, g_pfnDirectInput8Create := Some pfn\<rparr>)
              \<and> g_pfnDirectInput8Create
                  (snd (DirectInput8Create E hinst dwVersion riid punkOuter w)) = Some pfn)
       \<and> (\<forall>pfn (E' :: 'x externals) hinst' dwVersion' riid' punkOuter' w'.
            g_pfnDirectInput8Create w' = Some pfn
            \<longrightarrow> DirectInput8Create E' hinst' dwVersion' riid' punkOuter' w' =
                  DirectInput8Create_dispatch E' pfn hinst' dwVersion' riid' punkOuter' w'
              \<and> g_pfnDirectInput8Create
                  (snd (DirectInput8Create E' hinst' dwVersion' riid' punkOuter' w')) = Some pfn)"
proof (intro conjI impI allI)
  assume "hMod = None \<or> (\<exists>h. hMod = Some h \<and> GetProcAddress E h ''DirectInput8Create'' x1 = None)"
  then have res: "resolve_DirectInput8Create E w = (None, w\<lparr>ext := x1\<rparr>)"
    using unset load by (auto simp: resolve_DirectInput8Create_def)
  then show "DirectInput8Create E hinst dwVersion riid punkOuter w = ((E_FAIL, None), w\<lparr>ext := x1\<rparr>)"
    by (simp add: DirectInput8Create_def)
  then show "g_pfnDirectInput8Create (snd (DirectInput8Create E hinst dwVersion riid punkOuter w)) = None"
    using unset by simp
next
  fix h pfn
  assume "hMod = Some h \<and> GetProcAddress E h ''DirectInput8Create'' x1 = Some pfn"
  then have res: "resolve_DirectInput8Create E w =
      (Some pfn, w\<lparr>ext := x1, g_pfnDirectInput8Create := Some pfn\<rparr>)"
    using unset load by (simp add: resolve_DirectInput8Create_def)
  then show eq: "DirectInput8Create E hinst dwVersion riid punkOuter w =
      DirectInput8Create_dispatch E pfn hinst dwVersion riid punkOuter
        (w\<lparr>ext := x1, g_pfnDirectInput8Create := Some pfn\<rparr>)"
    by (simp add: DirectInput8Create_def)
  show "g_pfnDirectInput8Create (snd (DirectInput8Create E hinst dwVersion riid punkOuter w)) = Some pfn"
    by (simp add: eq dispatch_keeps_pointer)
next
  fix pfn and E' :: "'x externals" and hinst' dwVersion' riid' punkOuter' and w' :: "'x world"
  assume cached: "g_pfnDirectInput8Create w' = Some pfn"
  then have res: "resolve_DirectInput8Create E' w' = (Some pfn, w')"
    by (simp add: resolve_DirectInput8Create_def)
  then show eq: "DirectInput8Create E' hinst' dwVersion' riid' punkOuter' w' =
      DirectInput8Create_dispatch E' pfn hinst' dwVersion' riid' punkOuter' w'"
    by (simp add: DirectInput8Create_def)
  show "g_pfnDirectInput8Create (snd (DirectInput8Create E' hinst' dwVersion' riid' punkOuter' w')) = Some pfn"
    by (simp add: eq dispatch_keeps_pointer cached)
qed

text \<open>
  The instance below runs three calls on the test double: one with the library missing, the
  next one after the library has appeared, and a third one after it has disappeared
  again, which still succeeds through the cached pointer.
\<close>

theorem DirectInput8Create_load_failure_not_cached_witness:
  "g_pfnDirectInput8Create (fake_world (fake_state\<lparr>dll_loads := False\<rparr>) []) = None
   \<and> LoadLibraryA fake_externals
        (dinput8_dll_path fake_externals (fake_state\<lparr>dll_loads := False\<rparr>))
        (ext (fake_world (fake_state\<lparr>dll_loads := False\<rparr>) [])) =
        (None, fake_state\<lparr>dll_loads := False\<rparr>)
   \<and> DirectInput8Create fake_externals 0 0x0800 IID_IDirectInput8A 0
        (fake_world (fake_state\<lparr>dll_loads := False\<rparr>) []) =
        ((E_FAIL, None), fake_world (fake_state\<lparr>dll_loads := False\<rparr>) [])
   \<and> g_pfnDirectInput8Create (fake_world fake_state []) = None
   \<and> LoadLibraryA fake_externals (dinput8_dll_path fake_externals fake_state)
        (ext (fake_world fake_state [])) = (Some 1, fake_state)
   \<and> GetProcAddress fake_externals 1 ''DirectInput8Create'' fake_state = Some 7
   \<and> g_pfnDirectInput8Create
        (snd (DirectInput8Create fake_externals 0 0x0800 IID_IDirectInput8A 0
                (fake_world fake_state []))) = Some 7
   \<and> fst (DirectInput8Create fake_externals 0 0x0800 IID_IDirectInput8A 0
             (fake_world fake_state [])) = (S_OK, Some (Proxy 0))
   \<and> g_pfnDirectInput8Create
        ((fake_world (fake_state\<lparr>dll_loads := False\<rparr>) [])\<lparr>g_pfnDirectInput8Create := Some 7\<rparr>) =
        Some 7
   \<and> fst (DirectInput8Create fake_externals 0 0x0800 IID_IDirectInput8A 0
             ((fake_world (fake_state\<lparr>dll_loads := False\<rparr>) [])
                \<lparr>g_pfnDirectInput8Create := Some 7\<rparr>)) = (S_OK, Some (Proxy 0))
   \<and> g_pfnDirectInput8Create
        (snd (DirectInput8Create fake_externals 0 0x0800 IID_IDirectInput8A 0
                ((fake_world (fake_state\<lparr>dll_loads := False\<rparr>) [])
                   \<lparr>g_pfnDirectInput8Create := Some 7\<rparr>))) = Some 7"
proof -
  let ?off = "fake_state\<lparr>dll_loads := False\<rparr>"
  let ?wf = "fake_world ?off []"
  let ?ws = "fake_world fake_state []"
  let ?wc = "?wf\<lparr>g_pfnDirectInput8Create := Some 7\<rparr>"
  have f1: "g_pfnDirectInput8Create ?wf = None"
    by (simp add: fake_world_def)
  have f2: "LoadLibraryA fake_externals (dinput8_dll_path fake_externals ?off) (ext ?wf) =
      (None, ?off)"
    by (simp add: fake_defs)
  have f2': "LoadLibraryA fake_externals (dinput8_dll_path fake_externals (ext ?wf)) (ext ?wf) =
      (None, ?off)"
    by (simp add: fake_defs)
  have f3: "DirectInput8Create fake_externals 0 0x0800 IID_IDirectInput8A 0 ?wf =
      ((E_FAIL, None), ?wf)"
    using DirectInput8Create_load_failure_not_cached [OF f1 f2',
        of 0 "0x0800" IID_IDirectInput8A 0]
    by (simp add: fake_world_def)
  have s1: "g_pfnDirectInput8Create ?ws = None"
    by (simp add: fake_world_def)
  have s2: "LoadLibraryA fake_externals (dinput8_dll_path fake_externals fake_state) (ext ?ws) =
      (Some 1, fake_state)"
    by (simp add: fake_defs)
  have s2': "LoadLibraryA fake_externals (dinput8_dll_path fake_externals (ext ?ws)) (ext ?ws) =
      (Some 1, fake_state)"
    by (simp add: fake_defs)
  have s3: "GetProcAddress fake_externals 1 ''DirectInput8Create'' fake_state = Some 7"
    by (simp add: fake_defs)
  have s4: "DirectInput8Create fake_externals 0 0x0800 IID_IDirectInput8A 0 ?ws =
        DirectInput8Create_dispatch fake_externals 7 0 0x0800 IID_IDirectInput8A 0
          (?ws\<lparr>ext := fake_state, g_pfnDirectInput8Create := Some 7\<rparr>)"
    and s5: "g_pfnDirectInput8Create
        (snd (DirectInput8Create fake_externals 0 0x0800 IID_IDirectInput8A 0 ?ws)) = Some 7"
    using DirectInput8Create_load_failure_not_cached [OF s1 s2',
        of 0 "0x0800" IID_IDirectInput8A 0] s3
    by blast+
  have s6: "fst (DirectInput8Create fake_externals 0 0x0800 IID_IDirectInput8A 0 ?ws) =
      (S_OK, Some (Proxy 0))"
    by (subst s4)
       (simp add: DirectInput8Create_dispatch_def DirectInput8Create_wrap_def Let_def
          Log_frame new_wrapper_def IID_IDirectInput8_def fake_defs SUCCEEDED_def S_OK_def)
  have c1: "g_pfnDirectInput8Create ?wc = Some 7"
    by simp
  have c2: "DirectInput8Create fake_externals 0 0x0800 IID_IDirectInput8A 0 ?wc =
        DirectInput8Create_dispatch fake_externals 7 0 0x0800 IID_IDirectInput8A 0 ?wc"
    and c3: "g_pfnDirectInput8Create
        (snd (DirectInput8Create fake_externals 0 0x0800 IID_IDirectInput8A 0 ?wc)) = Some 7"
    using DirectInput8Create_load_failure_not_cached [OF s1 s2',
        of 0 "0x0800" IID_IDirectInput8A 0] c1
    by blast+
  have c4: "fst (DirectInput8Create fake_externals 0 0x0800 IID_IDirectInput8A 0 ?wc) =
      (S_OK, Some (Proxy 0))"
    by (subst c2)
       (simp add: DirectInput8Create_dispatch_def DirectInput8Create_wrap_def Let_def
          Log_frame new_wrapper_def IID_IDirectInput8_def fake_defs SUCCEEDED_def S_OK_def)
  from f1 f2 f3 s1 s2 s3 s5 s6 c1 c4 c3 show ?thesis by blast
qed



text \<open>
  Claim C10. The suppression is gated on \<open>SUCCEEDED\<close>, that is on a non-negative result
  code, not on \<open>S_OK\<close>: when the real device returns a non-negative code other than
  \<open>S_OK\<close> for a buffer of \<open>sizeof(DIJOYSTATE)\<close> bytes, the call through the device proxy
  returns that code and \<open>lRx\<close> and \<open>lRy\<close> of the caller's buffer are zero.
\<close>

theorem GetDeviceState_any_success_code:
  assumes live: "wrapper_at w this = Some (WrapperIDirectInputDevice8 cs m_pRealDevice)"
      and real: "real_GetDeviceState E m_pRealDevice cbData lpvData (mem w) (ext w) = (hr, m', x')"
      and nonneg: "0 \<le> sint hr"
      and not_S_OK: "hr \<noteq> S_OK"
      and size: "unat cbData = sizeof_DIJOYSTATE"
  shows "\<exists>w'. GetDeviceState E this cbData lpvData w = Some (hr, w')
           \<and> lRx (load_DIJOYSTATE (mem w') lpvData) = 0
           \<and> lRy (load_DIJOYSTATE (mem w') lpvData) = 0"
proof -
  have ok: "SUCCEEDED hr"
    using nonneg by (simp add: SUCCEEDED_def)
  let ?m = "\<lambda>a. if lpvData + 12 \<le> a \<and> a < lpvData + 20 then 0 else m' a"
  have run: "GetDeviceState E this cbData lpvData w = Some (hr, w\<lparr>mem := ?m, ext := x'\<rparr>)"
    using live real ok size
    by (simp add: GetDeviceState_def WrapperIDirectInputDevice8_GetDeviceState_def
        zero_rotation_bytes cong: if_cong)
  have "lRx (load_DIJOYSTATE ?m lpvData) = 0" "lRy (load_DIJOYSTATE ?m lpvData) = 0"
    by (simp_all add: load_zeroed_DIJOYSTATE)
  with run show ?thesis by simp
qed

theorem GetDeviceState_any_success_code_witness:
  "wrapper_at (fake_device_world (fake_state\<lparr>state_hr := 1\<rparr>)) 0 =
     Some (WrapperIDirectInputDevice8 A 20)
   \<and> real_GetDeviceState fake_externals 20 80 100
        (mem (fake_device_world (fake_state\<lparr>state_hr := 1\<rparr>)))
        (ext (fake_device_world (fake_state\<lparr>state_hr := 1\<rparr>))) =
        (1, fake_buffer 100 80, fake_state\<lparr>state_hr := 1\<rparr>)
   \<and> 0 \<le> sint (1 :: HRESULT)
   \<and> (1 :: HRESULT) \<noteq> S_OK
   \<and> unat (80 :: DWORD) = sizeof_DIJOYSTATE
   \<and> lRx (load_DIJOYSTATE (fake_buffer 100 80) 100) = 0x100F0E0D
   \<and> (\<exists>w'. GetDeviceState fake_externals 0 80 100 (fake_device_world (fake_state\<lparr>state_hr := 1\<rparr>)) =
              Some (1, w')
            \<and> lRx (load_DIJOYSTATE (mem w') 100) = 0
            \<and> lRy (load_DIJOYSTATE (mem w') 100) = 0)"
proof -
  let ?x = "fake_state\<lparr>state_hr := 1\<rparr>"
  have h1: "wrapper_at (fake_device_world ?x) 0 = Some (WrapperIDirectInputDevice8 A 20)"
    by (simp add: fake_defs)
  have h2: "real_GetDeviceState fake_externals 20 80 100
        (mem (fake_device_world ?x)) (ext (fake_device_world ?x)) = (1, fake_buffer 100 80, ?x)"
    by (simp add: fake_defs SUCCEEDED_def)
  have h3: "0 \<le> sint (1 :: HRESULT)"
    by simp
  have h4: "(1 :: HRESULT) \<noteq> S_OK"
    by (simp add: S_OK_def)
  have h5: "unat (80 :: DWORD) = sizeof_DIJOYSTATE"
    by (simp add: sizeof_DIJOYSTATE_def)
  have before: "lRx (load_DIJOYSTATE (fake_buffer 100 80) 100) = 0x100F0E0D"
    by (simp add: load_DIJOYSTATE_def load_LONG_def fake_buffer_def)
  from GetDeviceState_any_success_code [OF h1 h2 h3 h4 h5] h1 h2 h3 h4 h5 before
  show ?thesis by blast
qed

end
